theory Spec2Isabelle
  imports Complex_Main
begin

section \<open>JavaScript numbers\<close>

text \<open>
  A JavaScript number is an IEEE double. The finite ones are taken as exact reals
  (rounding, overflow to infinity and the sign of zero are left out); the two
  infinities and NaN are kept, because \<open>parseFloat\<close> produces NaN and the script
  passes it on unchecked. The operators follow IEEE 754 on the special values.
\<close>

datatype jsnum = Fin real | PInf | NInf | NaN

instantiation jsnum :: "{uminus, plus, minus, times, inverse}"
begin

definition uminus_jsnum :: "jsnum \<Rightarrow> jsnum" where
  "uminus_jsnum a = (case a of Fin x \<Rightarrow> Fin (- x) | PInf \<Rightarrow> NInf | NInf \<Rightarrow> PInf | NaN \<Rightarrow> NaN)"

definition plus_jsnum :: "jsnum \<Rightarrow> jsnum \<Rightarrow> jsnum" where
  "plus_jsnum a b =
     (case a of
        NaN \<Rightarrow> NaN
      | Fin x \<Rightarrow> (case b of Fin y \<Rightarrow> Fin (x + y) | PInf \<Rightarrow> PInf | NInf \<Rightarrow> NInf | NaN \<Rightarrow> NaN)
      | PInf \<Rightarrow> (case b of Fin y \<Rightarrow> PInf | PInf \<Rightarrow> PInf | NInf \<Rightarrow> NaN | NaN \<Rightarrow> NaN)
      | NInf \<Rightarrow> (case b of Fin y \<Rightarrow> NInf | PInf \<Rightarrow> NaN | NInf \<Rightarrow> NInf | NaN \<Rightarrow> NaN))"

definition minus_jsnum :: "jsnum \<Rightarrow> jsnum \<Rightarrow> jsnum" where
  "minus_jsnum a b = a + (- b)"

definition times_jsnum :: "jsnum \<Rightarrow> jsnum \<Rightarrow> jsnum" where
  "times_jsnum a b =
     (case a of
        NaN \<Rightarrow> NaN
      | Fin x \<Rightarrow>
          (case b of
             Fin y \<Rightarrow> Fin (x * y)
           | PInf \<Rightarrow> (if x = 0 then NaN else if 0 < x then PInf else NInf)
           | NInf \<Rightarrow> (if x = 0 then NaN else if 0 < x then NInf else PInf)
           | NaN \<Rightarrow> NaN)
      | PInf \<Rightarrow>
          (case b of
             Fin y \<Rightarrow> (if y = 0 then NaN else if 0 < y then PInf else NInf)
           | PInf \<Rightarrow> PInf | NInf \<Rightarrow> NInf | NaN \<Rightarrow> NaN)
      | NInf \<Rightarrow>
          (case b of
             Fin y \<Rightarrow> (if y = 0 then NaN else if 0 < y then NInf else PInf)
           | PInf \<Rightarrow> NInf | NInf \<Rightarrow> PInf | NaN \<Rightarrow> NaN))"

definition divide_jsnum :: "jsnum \<Rightarrow> jsnum \<Rightarrow> jsnum" where
  "divide_jsnum a b =
     (case a of
        NaN \<Rightarrow> NaN
      | Fin x \<Rightarrow>
          (case b of
             Fin y \<Rightarrow>
               (if y = 0 then (if x = 0 then NaN else if 0 < x then PInf else NInf)
                else Fin (x / y))
           | PInf \<Rightarrow> Fin 0 | NInf \<Rightarrow> Fin 0 | NaN \<Rightarrow> NaN)
      | PInf \<Rightarrow>
          (case b of Fin y \<Rightarrow> (if 0 \<le> y then PInf else NInf) | PInf \<Rightarrow> NaN | NInf \<Rightarrow> NaN | NaN \<Rightarrow> NaN)
      | NInf \<Rightarrow>
          (case b of Fin y \<Rightarrow> (if 0 \<le> y then NInf else PInf) | PInf \<Rightarrow> NaN | NInf \<Rightarrow> NaN | NaN \<Rightarrow> NaN))"

definition inverse_jsnum :: "jsnum \<Rightarrow> jsnum" where
  "inverse_jsnum a = divide (Fin 1) a"

instance ..

end

text \<open>\<open>Math.PI\<close>, \<open>Math.sin\<close>, \<open>Math.cos\<close>, \<open>Math.sqrt\<close>.\<close>

definition Math_PI :: jsnum where
  "Math_PI = Fin pi"

definition Math_sin :: "jsnum \<Rightarrow> jsnum" where
  "Math_sin a = (case a of Fin x \<Rightarrow> Fin (sin x) | PInf \<Rightarrow> NaN | NInf \<Rightarrow> NaN | NaN \<Rightarrow> NaN)"

definition Math_cos :: "jsnum \<Rightarrow> jsnum" where
  "Math_cos a = (case a of Fin x \<Rightarrow> Fin (cos x) | PInf \<Rightarrow> NaN | NInf \<Rightarrow> NaN | NaN \<Rightarrow> NaN)"

definition Math_sqrt :: "jsnum \<Rightarrow> jsnum" where
  "Math_sqrt a =
     (case a of Fin x \<Rightarrow> (if x < 0 then NaN else Fin (sqrt x)) | PInf \<Rightarrow> PInf | NInf \<Rightarrow> NaN | NaN \<Rightarrow> NaN)"

text \<open>\<open>a || b\<close> on numbers: zero and NaN are falsy.\<close>

definition js_or :: "jsnum \<Rightarrow> jsnum \<Rightarrow> jsnum" where
  "js_or a b = (if a = Fin 0 \<or> a = NaN then b else a)"

section \<open>THREE.Vector3\<close>

datatype vector3 = Vector3 (vx: jsnum) (vy: jsnum) (vz: jsnum)

text \<open>\<open>length()\<close> is \<open>Math.sqrt(x * x + y * y + z * z)\<close>.\<close>

definition vlength :: "vector3 \<Rightarrow> jsnum" where
  "vlength v = Math_sqrt (vx v * vx v + vy v * vy v + vz v * vz v)"

definition multiplyScalar :: "vector3 \<Rightarrow> jsnum \<Rightarrow> vector3" where
  "multiplyScalar v s = Vector3 (vx v * s) (vy v * s) (vz v * s)"

text \<open>\<open>divideScalar(s)\<close> is \<open>multiplyScalar(1 / s)\<close>.\<close>

definition divideScalar :: "vector3 \<Rightarrow> jsnum \<Rightarrow> vector3" where
  "divideScalar v s = multiplyScalar v (Fin 1 / s)"

text \<open>\<open>normalize()\<close> is \<open>divideScalar(length() || 1)\<close>.\<close>

definition vnormalize :: "vector3 \<Rightarrow> vector3" where
  "vnormalize v = divideScalar v (js_or (vlength v) (Fin 1))"

definition vadd :: "vector3 \<Rightarrow> vector3 \<Rightarrow> vector3" where
  "vadd v u = Vector3 (vx v + vx u) (vy v + vy u) (vz v + vz u)"

section \<open>The projection\<close>

text \<open>
  \<^verbatim>\<open>
  function latLonToVector3(lat, lon, radius) {
    const phi = (90 - lat) * (Math.PI / 180);
    const theta = (lon + 180) * (Math.PI / 180);
    const x = -(radius * Math.sin(phi) * Math.cos(theta));
    const z = radius * Math.sin(phi) * Math.sin(theta);
    const y = radius * Math.cos(phi);
    return new THREE.Vector3(x, y, z);
  }
  \<close>
\<close>

definition latLonToVector3 :: "jsnum \<Rightarrow> jsnum \<Rightarrow> jsnum \<Rightarrow> vector3" where
  "latLonToVector3 lat lon radius =
     (let phi = (Fin 90 - lat) * (Math_PI / Fin 180);
          theta = (lon + Fin 180) * (Math_PI / Fin 180);
          x = - (radius * Math_sin phi * Math_cos theta);
          z = radius * Math_sin phi * Math_sin theta;
          y = radius * Math_cos phi
      in Vector3 x y z)"

section \<open>parseFloat\<close>

text \<open>
  \<open>parseFloat(string)\<close> of ECMAScript: leading white space is dropped, then the longest
  prefix that is a \<open>StrDecimalLiteral\<close> is read (an optional sign, then \<open>Infinity\<close> or
  digits with an optional fraction and an optional exponent); with no such prefix the
  result is NaN. The value is the exact decimal (a literal too large for a double does
  not become Infinity). Only the ASCII white space characters are recognised here.
\<close>

definition StrWhiteSpaceChar :: "char \<Rightarrow> bool" where
  "StrWhiteSpaceChar c = (c \<in> set [CHR 0x09, CHR 0x0A, CHR 0x0B, CHR 0x0C, CHR 0x0D, CHR 0x20])"

definition DecimalDigit :: "char \<Rightarrow> bool" where
  "DecimalDigit c = (c \<in> set ''0123456789'')"

definition digits_value :: "string \<Rightarrow> nat" where
  "digits_value ds = foldl (\<lambda>n c. 10 * n + (of_char c - 48)) 0 ds"

fun parse_sign :: "string \<Rightarrow> bool \<times> string" where
  "parse_sign [] = (False, [])"
| "parse_sign (c # r) =
     (if c = CHR ''-'' then (True, r) else if c = CHR ''+'' then (False, r) else (False, c # r))"

definition parse_exponent :: "string \<Rightarrow> bool \<times> nat" where
  "parse_exponent r =
     (case r of
        [] \<Rightarrow> (False, 0)
      | c # r' \<Rightarrow>
          (if c = CHR ''e'' \<or> c = CHR ''E'' then
             (let (eneg, d) = parse_sign r'; es = takeWhile DecimalDigit d
              in if es = [] then (False, 0) else (eneg, digits_value es))
           else (False, 0)))"

definition parseFloat :: "string \<Rightarrow> jsnum" where
  "parseFloat s =
     (let (neg, u) = parse_sign (dropWhile StrWhiteSpaceChar s) in
      if take 8 u = ''Infinity'' then (if neg then NInf else PInf)
      else
        (let ip = takeWhile DecimalDigit u;
             r1 = dropWhile DecimalDigit u;
             has_dot = (case r1 of [] \<Rightarrow> False | c # _ \<Rightarrow> c = CHR ''.'');
             fp = (if has_dot then takeWhile DecimalDigit (tl r1) else []);
             r2 = (if has_dot then dropWhile DecimalDigit (tl r1) else r1)
         in if ip = [] \<and> fp = [] then NaN
            else
              (let (eneg, e) = parse_exponent r2;
                   m = real (digits_value ip) + real (digits_value fp) / 10 ^ length fp;
                   v = (if eneg then m / 10 ^ e else m * 10 ^ e)
               in Fin (if neg then - v else v))))"

section \<open>Settings\<close>

text \<open>
  The \<open>settings\<close> object. Its literal has seven properties; the two light intensities
  are properties that only a slider's handler creates, so they are optional here
  (\<open>None\<close>: the property is absent and reads as \<open>undefined\<close>).
\<close>

record Settings =
  backgroundColor :: jsnum
  markerColor :: jsnum
  markerSize :: jsnum
  locations :: "string list"
  shadowOpacity :: jsnum
  shadowSize :: jsnum
  shadowPosition :: jsnum
  ambientLightIntensity :: "jsnum option"
  directionalLightIntensity :: "jsnum option"

definition settings :: Settings where
  "settings =
     \<lparr> backgroundColor = Fin 0xffffff,
       markerColor = Fin 0xff0000,
       markerSize = Fin 0.008,
       locations = [''New York, USA'', ''Miami, USA'', ''Cancun, Mexico''],
       shadowOpacity = Fin 0.35,
       shadowSize = Fin 5,
       shadowPosition = Fin (- 1.8),
       ambientLightIntensity = None,
       directionalLightIntensity = None \<rparr>"

subsection \<open>The handlers that write the settings\<close>

text \<open>
  \<open>parseInt(string)\<close> with no radix: leading white space and a sign are dropped, a
  prefix \<open>0x\<close> or \<open>0X\<close> selects base 16, otherwise the base is 10; the longest run of digits
  of that base is read, and with no digit the result is NaN.
\<close>

definition HexDigit :: "char \<Rightarrow> bool" where
  "HexDigit c = (c \<in> set ''0123456789abcdefABCDEF'')"

definition hex_digit_value :: "char \<Rightarrow> nat" where
  "hex_digit_value c =
     (if c \<in> set ''0123456789'' then of_char c - 48
      else if c \<in> set ''abcdef'' then of_char c - 87
      else of_char c - 55)"

definition parseInt :: "string \<Rightarrow> jsnum" where
  "parseInt s =
     (let (neg, u) = parse_sign (dropWhile StrWhiteSpaceChar s);
          hex = (take 2 u = ''0x'' \<or> take 2 u = ''0X'');
          z = (if hex then takeWhile HexDigit (drop 2 u) else takeWhile DecimalDigit u);
          n = (if hex then foldl (\<lambda>n c. 16 * n + hex_digit_value c) 0 z else digits_value z)
      in if z = [] then NaN else Fin (if neg then - real n else real n))"

text \<open>\<open>color.replace("#", "0x")\<close>: the first \<open>#\<close> becomes \<open>0x\<close>.\<close>

fun replace_hash :: "string \<Rightarrow> string" where
  "replace_hash [] = []"
| "replace_hash (c # cs) = (if c = CHR ''#'' then ''0x'' @ cs else c # replace_hash cs)"

text \<open>
  \<open>String.prototype.trim\<close>, for ASCII white space (the other Unicode blanks are not
  stripped here).
\<close>

definition trim :: "string \<Rightarrow> string" where
  "trim s = rev (dropWhile StrWhiteSpaceChar (rev (dropWhile StrWhiteSpaceChar s)))"

text \<open>
  One event per control, carrying the control's value (for the remove button, the index
  its list item was rendered with). Only the effect on \<open>settings\<close> is kept; what the
  handlers do to the renderer, the lights, the shadow plane and the page is left out.
\<close>

datatype ui_event =
    BgColorInput string
  | MarkerColorInput string
  | MarkerSizeInput string
  | AmbientLightInput string
  | DirectionalLightInput string
  | ShadowOpacityInput string
  | ShadowSizeInput string
  | ShadowPositionInput string
  | AddLocationClick string
  | RemoveLocationClick nat

fun handle_ui :: "Settings \<Rightarrow> ui_event \<Rightarrow> Settings" where
  "handle_ui st (BgColorInput v) = st\<lparr> backgroundColor := parseInt (replace_hash v) \<rparr>"
| "handle_ui st (MarkerColorInput v) = st\<lparr> markerColor := parseInt (replace_hash v) \<rparr>"
| "handle_ui st (MarkerSizeInput v) = st\<lparr> markerSize := parseFloat v \<rparr>"
| "handle_ui st (AmbientLightInput v) = st\<lparr> ambientLightIntensity := Some (parseFloat v) \<rparr>"
| "handle_ui st (DirectionalLightInput v) = st\<lparr> directionalLightIntensity := Some (parseFloat v) \<rparr>"
| "handle_ui st (ShadowOpacityInput v) = st\<lparr> shadowOpacity := parseFloat v \<rparr>"
| "handle_ui st (ShadowSizeInput v) = st\<lparr> shadowSize := parseFloat v \<rparr>"
| "handle_ui st (ShadowPositionInput v) = st\<lparr> shadowPosition := parseFloat v \<rparr>"
| "handle_ui st (AddLocationClick v) =
     (let location = trim v
      in if location \<noteq> [] then st\<lparr> locations := locations st @ [location] \<rparr> else st)"
| "handle_ui st (RemoveLocationClick index) =
     st\<lparr> locations := take index (locations st) @ drop (Suc index) (locations st) \<rparr>"

text \<open>
  The spec's reading of the settings, for comparison: all nine fields are there. The
  seven of the literal always are; the two optional ones have to be defined.
\<close>

definition all_fields_present :: "Settings \<Rightarrow> bool" where
  "all_fields_present st = (ambientLightIntensity st \<noteq> None \<and> directionalLightIntensity st \<noteq> None)"

section \<open>The marker store and the globe\<close>

text \<open>
  A marker is the \<open>THREE.Mesh\<close> that \<open>addMarker\<close> builds: a circle geometry of the given
  size with 32 segments, a basic material of the given colour, a position, and the
  point it was told to look at. \<open>ident\<close> is the object's identity (THREE numbers every
  \<open>Object3D\<close> from a counter); two references are the same object when the idents agree.
\<close>

record marker =
  ident :: nat
  circle_radius :: jsnum
  circle_segments :: nat
  material_color :: jsnum
  position :: vector3
  lookAt_target :: vector3

datatype js_error = FetchFailed | JsonSyntaxError

datatype console_entry =
    Log_added_marker string jsnum jsnum
  | Error_geocoding string js_error

text \<open>
  The state the marker code works on: the \<open>markers\<close> array, the children of the globe
  mesh, the object counter, the console, the total time waited on \<open>setTimeout\<close>
  promises, and the queries for which a request was sent.
\<close>

record world =
  markers :: "marker list"
  globe_children :: "marker list"
  object3DId :: nat
  console :: "console_entry list"
  timer_ms :: nat
  requests :: "string list"

definition initial_world :: world where
  "initial_world =
     \<lparr> markers = [], globe_children = [], object3DId = 0, console = [], timer_ms = 0,
       requests = [] \<rparr>"

text \<open>
  \<open>Object3D.remove(object)\<close>: the first child that is this object is spliced out; nothing
  happens when it is not a child.
\<close>

fun Object3D_remove :: "marker \<Rightarrow> marker list \<Rightarrow> marker list" where
  "Object3D_remove m [] = []"
| "Object3D_remove m (c # cs) = (if ident c = ident m then cs else c # Object3D_remove m cs)"

text \<open>
  \<open>Object3D.add(object)\<close>: the object is first removed from its parent, if it has one
  (the globe is the only parent there is), then pushed onto the children.
\<close>

definition Object3D_add :: "marker \<Rightarrow> marker list \<Rightarrow> marker list" where
  "Object3D_add m cs = Object3D_remove m cs @ [m]"

text \<open>
  \<^verbatim>\<open>
  function addMarker(lat, lon, color, size) {
    const markerGeometry = new THREE.CircleGeometry(size, 32);
    const markerMaterial = new THREE.MeshBasicMaterial({ color: color, side: THREE.DoubleSide });
    const marker = new THREE.Mesh(markerGeometry, markerMaterial);
    const position = latLonToVector3(lat, lon, 1.005);
    marker.position.copy(position);
    const normalVector = position.clone().normalize();
    marker.lookAt(marker.position.clone().add(normalVector));
    globe.add(marker);
    markers.push(marker);
    return marker;
  }
  \<close>
  The orientation that \<open>lookAt\<close> computes is not modelled; the marker records the point
  it is given. The function returns the marker and the new state.
\<close>

definition addMarker :: "jsnum \<Rightarrow> jsnum \<Rightarrow> jsnum \<Rightarrow> jsnum \<Rightarrow> world \<Rightarrow> marker \<times> world" where
  "addMarker lat lon color msize w =
     (let pos = latLonToVector3 lat lon (Fin 1.005);
          normalVector = vnormalize pos;
          m = \<lparr> ident = object3DId w,
                circle_radius = msize,
                circle_segments = 32,
                material_color = color,
                position = pos,
                lookAt_target = vadd pos normalVector \<rparr>
      in (m, w\<lparr> object3DId := Suc (object3DId w),
                globe_children := Object3D_add m (globe_children w),
                markers := markers w @ [m] \<rparr>))"

text \<open>
  \<^verbatim>\<open>
  function clearMarkers() {
    markers.forEach((marker) => globe.remove(marker));
    markers = [];
  }
  \<close>
\<close>

definition clearMarkers :: "world \<Rightarrow> world" where
  "clearMarkers w =
     w\<lparr> globe_children := foldl (\<lambda>cs m. Object3D_remove m cs) (globe_children w) (markers w),
        markers := [] \<rparr>"

section \<open>Geocoding and the refresh cycle\<close>

text \<open>
  \<^verbatim>\<open>
  async function geocodeAndAddMarkers() {
    clearMarkers();
    for (const city of settings.locations) {
      try {
        const response = await fetch(
          `https://nominatim.openstreetmap.org/search?format=json&q=${encodeURIComponent(city)}&limit=1`);
        const data = await response.json();
        if (data && data.length > 0) {
          const lat = parseFloat(data[0].lat);
          const lon = parseFloat(data[0].lon);
          addMarker(lat, lon, settings.markerColor, settings.markerSize);
          console.log(`Added marker for ${city} at ${lat}, ${lon}`);
        }
        // Add delay to respect API rate limits
        await new Promise((resolve) => setTimeout(resolve, 1000));
      } catch (error) {
        console.error(`Error geocoding ${city}:`, error);
      }
    }
  }
  \<close>
  What one request comes to: \<open>fetch\<close> rejects (network error), \<open>response.json()\<close> rejects
  (the body is not JSON), or the body parses to the service's answer, an array of places
  that carry their coordinates as strings. Bodies of another shape are not modelled.
\<close>

datatype place = Place (place_lat: string) (place_lon: string)

datatype fetch_outcome = FetchRejected | JsonRejected | Data "place list"

text \<open>
  The body of the loop for one city, from the sending of the request to the end of the
  iteration, given what the request comes to and with settings that stay as they are
  meanwhile. A rejection leaves the \<open>try\<close> block at the \<open>await\<close> and runs the \<open>catch\<close>;
  otherwise a marker is added when the array is not empty, and then the delay is
  awaited.
\<close>

definition geocode_city :: "Settings \<Rightarrow> string \<Rightarrow> fetch_outcome \<Rightarrow> world \<Rightarrow> world" where
  "geocode_city st city outcome w =
     (let w1 = w\<lparr> requests := requests w @ [city] \<rparr> in
      case outcome of
        FetchRejected \<Rightarrow> w1\<lparr> console := console w1 @ [Error_geocoding city FetchFailed] \<rparr>
      | JsonRejected \<Rightarrow> w1\<lparr> console := console w1 @ [Error_geocoding city JsonSyntaxError] \<rparr>
      | Data dat \<Rightarrow>
          (let w2 =
                 (case dat of
                    [] \<Rightarrow> w1
                  | d # _ \<Rightarrow>
                      (let lat = parseFloat (place_lat d);
                           lon = parseFloat (place_lon d);
                           (m, w') = addMarker lat lon (markerColor st) (markerSize st) w1
                       in w'\<lparr> console := console w' @ [Log_added_marker city lat lon] \<rparr>))
           in w2\<lparr> timer_ms := timer_ms w2 + 1000 \<rparr>))"

subsection \<open>The cycle as it runs: suspensions, handlers and overlap\<close>

text \<open>
  \<open>geocodeAndAddMarkers\<close> is asynchronous. Between its suspensions other code runs: the
  handlers of the controls, which write \<open>settings\<close> (the location list among them), and
  further calls of \<open>geocodeAndAddMarkers\<close>. A cycle is suspended either at its request
  (the awaits of \<open>fetch\<close> and \<open>response.json()\<close>; nothing reads the settings in between)
  or at its delay. The \<open>for ... of\<close> loop reads the live array \<open>settings.locations\<close>: its
  iterator keeps an index, and each iteration takes the element at that index of the
  array as it is then, or ends the loop when the index is past the array's length.
  A suspended cycle therefore keeps the index its iterator reads next and, while the
  request is pending, the city it asked for.
\<close>

datatype cycle = AwaitResponse string nat | AwaitDelay nat | Finished

record app =
  settings_now :: Settings
  world_now :: world
  cycles :: "cycle list"

definition initial_app :: app where
  "initial_app = \<lparr> settings_now = settings, world_now = initial_world, cycles = [] \<rparr>"

text \<open>
  The start of an iteration: with an element at the index, the request for it is sent
  and the cycle suspends; otherwise the loop, and the cycle, is over.
\<close>

definition next_iteration :: "Settings \<Rightarrow> nat \<Rightarrow> world \<Rightarrow> world \<times> cycle" where
  "next_iteration st i w =
     (if i < length (locations st)
      then (w\<lparr> requests := requests w @ [locations st ! i] \<rparr>,
            AwaitResponse (locations st ! i) (Suc i))
      else (w, Finished))"

text \<open>
  What the loop body does when the request for \<open>city\<close> has settled, up to the delay (for
  an answer) or through the \<open>catch\<close> (for a rejection). The marker's colour and size are
  those of the settings at that moment.
\<close>

definition settle :: "Settings \<Rightarrow> string \<Rightarrow> fetch_outcome \<Rightarrow> world \<Rightarrow> world" where
  "settle st city outcome w =
     (case outcome of
        FetchRejected \<Rightarrow> w\<lparr> console := console w @ [Error_geocoding city FetchFailed] \<rparr>
      | JsonRejected \<Rightarrow> w\<lparr> console := console w @ [Error_geocoding city JsonSyntaxError] \<rparr>
      | Data dat \<Rightarrow>
          (case dat of
             [] \<Rightarrow> w
           | d # _ \<Rightarrow>
               (let lat = parseFloat (place_lat d);
                    lon = parseFloat (place_lon d);
                    (m, w') = addMarker lat lon (markerColor st) (markerSize st) w
                in w'\<lparr> console := console w' @ [Log_added_marker city lat lon] \<rparr>)))"

text \<open>
  The events: a call of \<open>geocodeAndAddMarkers\<close> (at start-up, or from the refresh button),
  the settling of the pending request of the k-th cycle started so far, the end of the
  delay of the k-th cycle, and the run of a handler. A call clears the store and enters
  the first iteration. A request that settles with an answer leads to the delay; one
  that rejects leads through the \<open>catch\<close> straight into the next iteration. The end of the
  delay leads into the next iteration. An event for a cycle that is not waiting for it
  does nothing.
\<close>

datatype event = Refresh | Settle nat fetch_outcome | Timer nat | Handler ui_event

fun run_event :: "app \<Rightarrow> event \<Rightarrow> app" where
  "run_event a Refresh =
     (let (w, c) = next_iteration (settings_now a) 0 (clearMarkers (world_now a))
      in a\<lparr> world_now := w, cycles := cycles a @ [c] \<rparr>)"
| "run_event a (Settle k outcome) =
     (if k < length (cycles a) then
        (case cycles a ! k of
           AwaitResponse city i \<Rightarrow>
             (let w = settle (settings_now a) city outcome (world_now a) in
              case outcome of
                Data _ \<Rightarrow> a\<lparr> world_now := w, cycles := (cycles a)[k := AwaitDelay i] \<rparr>
              | _ \<Rightarrow>
                  (let (w', c) = next_iteration (settings_now a) i w
                   in a\<lparr> world_now := w', cycles := (cycles a)[k := c] \<rparr>))
         | _ \<Rightarrow> a)
      else a)"
| "run_event a (Timer k) =
     (if k < length (cycles a) then
        (case cycles a ! k of
           AwaitDelay i \<Rightarrow>
             (let (w', c) = next_iteration (settings_now a) i
                              ((world_now a)\<lparr> timer_ms := timer_ms (world_now a) + 1000 \<rparr>)
              in a\<lparr> world_now := w', cycles := (cycles a)[k := c] \<rparr>)
         | _ \<Rightarrow> a)
      else a)"
| "run_event a (Handler e) = a\<lparr> settings_now := handle_ui (settings_now a) e \<rparr>"

definition run_events :: "event list \<Rightarrow> app \<Rightarrow> app" where
  "run_events evs a = foldl run_event a evs"

text \<open>
  The locations and coordinates of the non-empty answers that the k-th cycle receives in
  the course of the events, from the state \<open>a\<close> on: the locations that this cycle
  geocodes successfully.
\<close>

fun delivered :: "nat \<Rightarrow> app \<Rightarrow> event list \<Rightarrow> (string \<times> jsnum \<times> jsnum) list" where
  "delivered k a [] = []"
| "delivered k a (e # evs) =
     (case e of
        Settle j (Data (d # _)) \<Rightarrow>
          (if j = k \<and> k < length (cycles a) then
             (case cycles a ! k of
                AwaitResponse city i \<Rightarrow> [(city, parseFloat (place_lat d), parseFloat (place_lon d))]
              | _ \<Rightarrow> [])
           else [])
      | _ \<Rightarrow> [])
     @ delivered k (run_event a e) evs"

subsection \<open>The cycle on its own\<close>

text \<open>
  When no handler runs and no other cycle is started while a cycle runs, the list it
  iterates does not change, and the cycle is the loop below over that list
  (\<open>solo_cycle\<close>). The network is a function: what the n-th request ever sent comes to,
  given its query; every request settles.
\<close>

fun geocode_loop :: "(nat \<Rightarrow> string \<Rightarrow> fetch_outcome) \<Rightarrow> Settings \<Rightarrow> string list \<Rightarrow> world \<Rightarrow> world" where
  "geocode_loop net st [] w = w"
| "geocode_loop net st (city # cities) w =
     geocode_loop net st cities (geocode_city st city (net (length (requests w)) city) w)"

text \<open>One refresh cycle, run from start to end with nothing else in between.\<close>

definition geocodeAndAddMarkers :: "(nat \<Rightarrow> string \<Rightarrow> fetch_outcome) \<Rightarrow> Settings \<Rightarrow> world \<Rightarrow> world" where
  "geocodeAndAddMarkers net st w = geocode_loop net st (locations st) (clearMarkers w)"




subsection \<open>Well-formed scenes and the coordinates a cycle resolves\<close>

text \<open>
  THREE keeps an object among the children of at most one parent, at most once, and the
  counter is ahead of every object made so far.
\<close>

definition scene_ok :: "world \<Rightarrow> bool" where
  "scene_ok w =
     (distinct (map ident (globe_children w)) \<and>
      list_all (\<lambda>m. ident m < object3DId w) (globe_children w) \<and>
      list_all (\<lambda>m. ident m < object3DId w) (markers w))"

text \<open>
  The coordinates of the locations a cycle geocodes successfully, in order, when its
  first request is the n-th one: a location counts when its answer is a non-empty array.
\<close>

fun geocoded :: "(nat \<Rightarrow> string \<Rightarrow> fetch_outcome) \<Rightarrow> nat \<Rightarrow> string list \<Rightarrow> (jsnum \<times> jsnum) list" where
  "geocoded net n [] = []"
| "geocoded net n (city # cities) =
     (case net n city of
        Data (d # _) \<Rightarrow> [(parseFloat (place_lat d), parseFloat (place_lon d))]
      | _ \<Rightarrow> []) @ geocoded net (Suc n) cities"


text \<open>The locations of a cycle whose request did not reject: those that reach the delay.\<close>

fun answered :: "(nat \<Rightarrow> string \<Rightarrow> fetch_outcome) \<Rightarrow> nat \<Rightarrow> string list \<Rightarrow> nat" where
  "answered net n [] = 0"
| "answered net n (city # cities) =
     (case net n city of Data _ \<Rightarrow> 1 | _ \<Rightarrow> 0) + answered net (Suc n) cities"

section \<open>Facts about the numbers\<close>

lemma Fin_arith [simp]:
  "- Fin x = Fin (- x)"
  "Fin x + Fin y = Fin (x + y)"
  "Fin x - Fin y = Fin (x - y)"
  "Fin x * Fin y = Fin (x * y)"
  by (simp_all add: uminus_jsnum_def plus_jsnum_def minus_jsnum_def times_jsnum_def)

lemma Fin_divide [simp]: "y \<noteq> 0 \<Longrightarrow> Fin x / Fin y = Fin (x / y)"
  by (simp add: divide_jsnum_def)

lemma Math_Fin [simp]:
  "Math_sin (Fin x) = Fin (sin x)"
  "Math_cos (Fin x) = Fin (cos x)"
  "0 \<le> x \<Longrightarrow> Math_sqrt (Fin x) = Fin (sqrt x)"
  by (simp_all add: Math_sin_def Math_cos_def Math_sqrt_def)

lemma NaN_arith [simp]:
  "- NaN = NaN" "NaN + a = NaN" "a + NaN = NaN" "NaN - a = NaN" "a - NaN = NaN"
  "NaN * a = NaN" "a * NaN = NaN" "Math_sin NaN = NaN" "Math_cos NaN = NaN"
  by (simp_all add: uminus_jsnum_def plus_jsnum_def minus_jsnum_def times_jsnum_def
      Math_sin_def Math_cos_def split: jsnum.splits)

lemma latLonToVector3_Fin:
  "latLonToVector3 (Fin lat) (Fin lon) (Fin r) =
     Vector3 (Fin (- (r * sin ((90 - lat) * (pi / 180)) * cos ((lon + 180) * (pi / 180)))))
             (Fin (r * cos ((90 - lat) * (pi / 180))))
             (Fin (r * sin ((90 - lat) * (pi / 180)) * sin ((lon + 180) * (pi / 180))))"
  by (simp add: latLonToVector3_def Math_PI_def Let_def)

lemma sphere_norm:
  fixes r s k c t :: real
  assumes "s\<^sup>2 + k\<^sup>2 = 1" and "c\<^sup>2 + t\<^sup>2 = 1"
  shows "(- (r * s * c)) * (- (r * s * c)) + (r * k) * (r * k) + (r * s * t) * (r * s * t) = r\<^sup>2"
proof -
  have "(- (r * s * c)) * (- (r * s * c)) + (r * k) * (r * k) + (r * s * t) * (r * s * t)
        = r\<^sup>2 * (s\<^sup>2 * (c\<^sup>2 + t\<^sup>2) + k\<^sup>2)"
    by (simp add: power2_eq_square algebra_simps)
  also have "\<dots> = r\<^sup>2"
    using assms by simp
  finally show ?thesis .
qed

lemma vlength_latLon:
  "vlength (latLonToVector3 (Fin lat) (Fin lon) (Fin r)) = Fin \<bar>r\<bar>"
proof -
  let ?p = "(90 - lat) * (pi / 180)"
  let ?t = "(lon + 180) * (pi / 180)"
  have "(- (r * sin ?p * cos ?t)) * (- (r * sin ?p * cos ?t)) + (r * cos ?p) * (r * cos ?p)
          + (r * sin ?p * sin ?t) * (r * sin ?p * sin ?t) = r\<^sup>2"
    by (rule sphere_norm) (simp_all add: sin_cos_squared_add sin_cos_squared_add2)
  then show ?thesis
    by (simp add: latLonToVector3_Fin vlength_def)
qed

section \<open>The projection: claims\<close>

text \<open>
  C4. For every latitude, longitude and radius the projection returns exactly the point
  of the spec's formula: phi = (90 - lat) * pi / 180, theta = (lon + 180) * pi / 180,
  x = -r sin phi cos theta, z = r sin phi sin theta, y = r cos phi. There is no range
  check: the equation holds for all real inputs, in or out of the geographic ranges.
\<close>

theorem C4_projection_formula:
  "latLonToVector3 (Fin lat) (Fin lon) (Fin r) =
     (let phi = (90 - lat) * pi / 180;
          theta = (lon + 180) * pi / 180;
          x = - r * sin phi * cos theta;
          z = r * sin phi * sin theta;
          y = r * cos phi
      in Vector3 (Fin x) (Fin y) (Fin z))"
  by (simp add: latLonToVector3_Fin Let_def)

text \<open>
  C5. For latitude in [-90, 90], longitude in [-180, 180] and a positive radius, the
  projected point lies at distance exactly the radius from the origin (over the reals).
\<close>

theorem C5_projection_on_sphere:
  assumes "- 90 \<le> lat" and "lat \<le> 90" and "- 180 \<le> lon" and "lon \<le> 180" and "0 < r"
  shows "vlength (latLonToVector3 (Fin lat) (Fin lon) (Fin r)) = Fin r"
  using assms by (simp add: vlength_latLon)

theorem C5_projection_on_sphere_witness:
  "vlength (latLonToVector3 (Fin 40) (Fin (- 74)) (Fin 1.005)) = Fin 1.005"
  using C5_projection_on_sphere [of 40 "- 74" "1.005"] by simp

text \<open>
  C6, as the spec states it, fails: at latitude 0 and longitude 0 the projection on the
  unit sphere is (1, 0, 0), not (-1, 0, 0), and at latitude 0 and longitude 90 it is
  (0, 0, -1), not (0, 0, 1).
\<close>

theorem C6_counterexample:
  "latLonToVector3 (Fin 0) (Fin 0) (Fin 1) \<noteq> Vector3 (Fin (- 1)) (Fin 0) (Fin 0) \<and>
   latLonToVector3 (Fin 0) (Fin 90) (Fin 1) \<noteq> Vector3 (Fin 0) (Fin 0) (Fin 1)"
proof -
  have a: "3 * pi / 2 = 3 / 2 * pi" by simp
  show ?thesis
    by (simp add: latLonToVector3_Fin) (simp only: a sin_3over2_pi, simp)
qed

text \<open>
  C6, amended. At latitude 90 the projection is (0, radius, 0) for every longitude; at
  latitude 0, longitude 0 it is (radius, 0, 0); at latitude 0, longitude 90 it is
  (0, 0, -radius).
\<close>

theorem C6_projection_fixed_points:
  "latLonToVector3 (Fin 90) (Fin lon) (Fin r) = Vector3 (Fin 0) (Fin r) (Fin 0) \<and>
   latLonToVector3 (Fin 0) (Fin 0) (Fin r) = Vector3 (Fin r) (Fin 0) (Fin 0) \<and>
   latLonToVector3 (Fin 0) (Fin 90) (Fin r) = Vector3 (Fin 0) (Fin 0) (Fin (- r))"
proof -
  have a: "3 * pi / 2 = 3 / 2 * pi" by simp
  show ?thesis
    by (simp add: latLonToVector3_Fin) (simp only: a sin_3over2_pi cos_3over2_pi, simp)
qed

section \<open>Facts about the marker store and the refresh cycle\<close>

lemma clearMarkers_fields [simp]:
  "markers (clearMarkers w) = []"
  "object3DId (clearMarkers w) = object3DId w"
  "console (clearMarkers w) = console w"
  "timer_ms (clearMarkers w) = timer_ms w"
  "requests (clearMarkers w) = requests w"
  by (simp_all add: clearMarkers_def)

lemma map_ident_remove:
  "map ident (Object3D_remove m cs) = remove1 (ident m) (map ident cs)"
  by (induction cs) auto

lemma map_ident_remove_all:
  "map ident (foldl (\<lambda>cs m. Object3D_remove m cs) cs ms) =
     foldl (\<lambda>is m. remove1 (ident m) is) (map ident cs) ms"
  by (induction ms arbitrary: cs) (simp_all add: map_ident_remove)

lemma set_remove_all:
  "distinct is \<Longrightarrow>
     set (foldl (\<lambda>is m. remove1 (ident m) is) is ms) = set is - ident ` set ms \<and>
     distinct (foldl (\<lambda>is m. remove1 (ident m) is) is ms)"
  by (induction ms arbitrary: "is") auto

lemma remove_all_subset:
  "set (foldl (\<lambda>cs m. Object3D_remove m cs) cs ms) \<subseteq> set cs"
proof (induction ms arbitrary: cs)
  case Nil
  then show ?case by simp
next
  case (Cons m ms)
  have "set (Object3D_remove m cs) \<subseteq> set cs"
    by (induction cs) auto
  with Cons show ?case by fastforce
qed

lemma remove_keeps:
  "x \<in> set cs \<Longrightarrow> ident x \<noteq> ident m \<Longrightarrow> x \<in> set (Object3D_remove m cs)"
  by (induction cs) auto

lemma remove_absent:
  "ident m \<notin> ident ` set cs \<Longrightarrow> Object3D_remove m cs = cs"
  by (induction cs) auto

lemma addMarker_fields [simp]:
  "markers (snd (addMarker lat lon color msize w)) = markers w @ [fst (addMarker lat lon color msize w)]"
  "globe_children (snd (addMarker lat lon color msize w)) =
     Object3D_remove (fst (addMarker lat lon color msize w)) (globe_children w)
       @ [fst (addMarker lat lon color msize w)]"
  "object3DId (snd (addMarker lat lon color msize w)) = Suc (object3DId w)"
  "console (snd (addMarker lat lon color msize w)) = console w"
  "timer_ms (snd (addMarker lat lon color msize w)) = timer_ms w"
  "requests (snd (addMarker lat lon color msize w)) = requests w"
  by (simp_all add: addMarker_def Let_def Object3D_add_def)

lemma addMarker_marker [simp]:
  "ident (fst (addMarker lat lon color msize w)) = object3DId w"
  "circle_radius (fst (addMarker lat lon color msize w)) = msize"
  "circle_segments (fst (addMarker lat lon color msize w)) = 32"
  "material_color (fst (addMarker lat lon color msize w)) = color"
  "position (fst (addMarker lat lon color msize w)) = latLonToVector3 lat lon (Fin 1.005)"
  "lookAt_target (fst (addMarker lat lon color msize w)) =
     vadd (latLonToVector3 lat lon (Fin 1.005)) (vnormalize (latLonToVector3 lat lon (Fin 1.005)))"
  by (simp_all add: addMarker_def Let_def)

lemma geocode_city_rejected [simp]:
  "geocode_city st city FetchRejected w =
     w\<lparr> requests := requests w @ [city], console := console w @ [Error_geocoding city FetchFailed] \<rparr>"
  "geocode_city st city JsonRejected w =
     w\<lparr> requests := requests w @ [city], console := console w @ [Error_geocoding city JsonSyntaxError] \<rparr>"
  by (simp_all add: geocode_city_def)

lemma geocode_city_empty [simp]:
  "geocode_city st city (Data []) w =
     w\<lparr> requests := requests w @ [city], timer_ms := timer_ms w + 1000 \<rparr>"
  by (simp add: geocode_city_def)

lemma geocode_city_found:
  "geocode_city st city (Data (d # ds)) w =
     (let lat = parseFloat (place_lat d); lon = parseFloat (place_lon d);
          w' = snd (addMarker lat lon (markerColor st) (markerSize st) (w\<lparr> requests := requests w @ [city] \<rparr>))
      in w'\<lparr> console := console w @ [Log_added_marker city lat lon], timer_ms := timer_ms w + 1000 \<rparr>)"
  by (simp add: geocode_city_def Let_def split_beta)


lemma addMarker_requests_irrelevant [simp]:
  "fst (addMarker lat lon color msize (w\<lparr> requests := r \<rparr>)) = fst (addMarker lat lon color msize w)"
  by (simp add: addMarker_def Let_def)

lemma geocode_city_requests [simp]:
  "requests (geocode_city st city outcome w) = requests w @ [city]"
  by (cases outcome; cases "case outcome of Data dat \<Rightarrow> dat | _ \<Rightarrow> []")
     (simp_all add: geocode_city_found Let_def)

lemma geocode_city_timer:
  "timer_ms (geocode_city st city outcome w) =
     timer_ms w + (case outcome of Data _ \<Rightarrow> 1000 | _ \<Rightarrow> 0)"
  by (cases outcome; cases "case outcome of Data dat \<Rightarrow> dat | _ \<Rightarrow> []")
     (simp_all add: geocode_city_found Let_def)

lemma geocode_city_counter:
  "object3DId (geocode_city st city outcome w) =
     object3DId w + (case outcome of Data (d # _) \<Rightarrow> 1 | _ \<Rightarrow> 0)"
  by (cases outcome; cases "case outcome of Data dat \<Rightarrow> dat | _ \<Rightarrow> []")
     (simp_all add: geocode_city_found Let_def)

lemma geocode_city_markers:
  "markers (geocode_city st city outcome w) =
     markers w @
     (case outcome of
        Data (d # _) \<Rightarrow>
          [fst (addMarker (parseFloat (place_lat d)) (parseFloat (place_lon d))
                  (markerColor st) (markerSize st) w)]
      | _ \<Rightarrow> [])"
  by (cases outcome; cases "case outcome of Data dat \<Rightarrow> dat | _ \<Rightarrow> []")
     (simp_all add: geocode_city_found Let_def)

lemma geocode_city_children:
  "globe_children (geocode_city st city outcome w) =
     (case outcome of
        Data (d # _) \<Rightarrow>
          Object3D_add (fst (addMarker (parseFloat (place_lat d)) (parseFloat (place_lon d))
                  (markerColor st) (markerSize st) w)) (globe_children w)
      | _ \<Rightarrow> globe_children w)"
  by (cases outcome; cases "case outcome of Data dat \<Rightarrow> dat | _ \<Rightarrow> []")
     (simp_all add: geocode_city_found Let_def Object3D_add_def)

lemma loop_requests: "requests (geocode_loop net st cities w) = requests w @ cities"
  by (induction cities arbitrary: w) simp_all

lemma loop_timer:
  "timer_ms (geocode_loop net st cities w) =
     timer_ms w + 1000 * answered net (length (requests w)) cities"
  by (induction cities arbitrary: w)
     (simp_all add: geocode_city_timer split: fetch_outcome.splits)

lemma loop_counter:
  "object3DId (geocode_loop net st cities w) =
     object3DId w + length (geocoded net (length (requests w)) cities)"
  by (induction cities arbitrary: w)
     (simp_all add: geocode_city_counter split: fetch_outcome.splits list.splits)


lemma upt_shift: "c # [Suc c ..< Suc (c + k)] = [c ..< Suc (c + k)]"
  by (simp add: upt_conv_Cons)

lemma loop_idents:
  "map ident (markers (geocode_loop net st cities w)) =
     map ident (markers w) @
     [object3DId w ..< object3DId w + length (geocoded net (length (requests w)) cities)]"
proof (induction cities arbitrary: w)
  case Nil
  show ?case by simp
next
  case (Cons city cities)
  let ?o = "net (length (requests w)) city"
  let ?w = "geocode_city st city ?o w"
  have ih: "map ident (markers (geocode_loop net st cities ?w)) =
     map ident (markers ?w) @
     [object3DId ?w ..< object3DId ?w + length (geocoded net (Suc (length (requests w))) cities)]"
    using Cons [of ?w] by simp
  show ?case
  proof (cases "\<exists>d ds. ?o = Data (d # ds)")
    case True
    then obtain d ds where o: "?o = Data (d # ds)" by blast
    let ?G = "geocoded net (Suc (length (requests w))) cities"
    have m: "map ident (markers ?w) = map ident (markers w) @ [object3DId w]"
      by (simp add: o geocode_city_markers)
    have c: "object3DId ?w = Suc (object3DId w)"
      by (simp add: o geocode_city_counter)
    have g: "length (geocoded net (length (requests w)) (city # cities)) = Suc (length ?G)"
      by (simp add: o)
    have u: "[object3DId w ..< object3DId w + Suc (length ?G)] =
               object3DId w # [Suc (object3DId w) ..< Suc (object3DId w) + length ?G]"
      by (simp add: upt_conv_Cons del: upt_Suc)
    have "map ident (markers (geocode_loop net st (city # cities) w)) =
            map ident (markers (geocode_loop net st cities ?w))"
      by simp
    also have "\<dots> = map ident (markers w) @
            (object3DId w # [Suc (object3DId w) ..< Suc (object3DId w) + length ?G])"
      unfolding ih m c by simp
    finally show ?thesis
      unfolding g u .
  next
    case False
    then have "(case ?o of Data (d # _) \<Rightarrow> [(parseFloat (place_lat d), parseFloat (place_lon d))] | _ \<Rightarrow> []) = []"
      and "markers ?w = markers w" and "object3DId ?w = object3DId w"
      by (auto simp: geocode_city_markers geocode_city_counter split: fetch_outcome.splits list.splits)
    then show ?thesis
      using ih by simp
  qed
qed


lemma scene_ok_initial: "scene_ok initial_world"
  by (simp add: scene_ok_def initial_world_def)

lemma scene_ok_clearMarkers:
  assumes "scene_ok w"
  shows "scene_ok (clearMarkers w)"
proof -
  have d: "distinct (map ident (globe_children w))"
    using assms by (simp add: scene_ok_def)
  have "distinct (map ident (globe_children (clearMarkers w)))"
    using set_remove_all [OF d, of "markers w"]
    by (simp add: clearMarkers_def map_ident_remove_all)
  moreover have "set (globe_children (clearMarkers w)) \<subseteq> set (globe_children w)"
    by (simp add: clearMarkers_def remove_all_subset)
  ultimately show ?thesis
    using assms by (auto simp: scene_ok_def list_all_iff)
qed

lemma scene_ok_geocode_city:
  assumes "scene_ok w"
  shows "scene_ok (geocode_city st city outcome w) \<and>
         (\<exists>ns. markers (geocode_city st city outcome w) = markers w @ ns \<and>
               globe_children (geocode_city st city outcome w) = globe_children w @ ns)"
proof (cases "\<exists>d ds. outcome = Data (d # ds)")
  case True
  then obtain d ds where o: "outcome = Data (d # ds)" by blast
  let ?m = "fst (addMarker (parseFloat (place_lat d)) (parseFloat (place_lon d))
                  (markerColor st) (markerSize st) w)"
  have fresh: "ident ?m \<notin> ident ` set (globe_children w)"
    using assms by (auto simp: scene_ok_def list_all_iff)
  then have ch: "globe_children (geocode_city st city outcome w) = globe_children w @ [?m]"
    by (simp add: o geocode_city_children Object3D_add_def remove_absent)
  have mk: "markers (geocode_city st city outcome w) = markers w @ [?m]"
    by (simp add: o geocode_city_markers)
  have cn: "object3DId (geocode_city st city outcome w) = Suc (object3DId w)"
    by (simp add: o geocode_city_counter)
  have "scene_ok (geocode_city st city outcome w)"
    using assms fresh unfolding scene_ok_def ch mk cn
    by (auto simp: list_all_iff less_Suc_eq)
  then show ?thesis
    using ch mk by blast
next
  case False
  then have "markers (geocode_city st city outcome w) = markers w"
    and "globe_children (geocode_city st city outcome w) = globe_children w"
    and "object3DId (geocode_city st city outcome w) = object3DId w"
    by (auto simp: geocode_city_markers geocode_city_children geocode_city_counter
        split: fetch_outcome.splits list.splits)
  then show ?thesis
    using assms by (simp add: scene_ok_def)
qed

lemma scene_ok_loop:
  "scene_ok w \<Longrightarrow>
     scene_ok (geocode_loop net st cities w) \<and>
     (\<exists>ns. markers (geocode_loop net st cities w) = markers w @ ns \<and>
           globe_children (geocode_loop net st cities w) = globe_children w @ ns)"
proof (induction cities arbitrary: w)
  case Nil
  then show ?case by simp
next
  case (Cons city cities)
  let ?w = "geocode_city st city (net (length (requests w)) city) w"
  from scene_ok_geocode_city [OF Cons.prems, of st city "net (length (requests w)) city"]
  obtain ns where ok: "scene_ok ?w" and m: "markers ?w = markers w @ ns"
    and c: "globe_children ?w = globe_children w @ ns"
    by blast
  from Cons.IH [OF ok] obtain ns' where ok': "scene_ok (geocode_loop net st cities ?w)"
    and m': "markers (geocode_loop net st cities ?w) = markers ?w @ ns'"
    and c': "globe_children (geocode_loop net st cities ?w) = globe_children ?w @ ns'"
    by blast
  show ?case
    using ok' m' c' m c by simp
qed

lemma cycle_scene:
  assumes "scene_ok w"
  shows "scene_ok (geocodeAndAddMarkers net st w)"
    and "globe_children (geocodeAndAddMarkers net st w) =
           globe_children (clearMarkers w) @ markers (geocodeAndAddMarkers net st w)"
proof -
  from scene_ok_loop [OF scene_ok_clearMarkers [OF assms], of net st "locations st"]
  show "scene_ok (geocodeAndAddMarkers net st w)"
    and "globe_children (geocodeAndAddMarkers net st w) =
           globe_children (clearMarkers w) @ markers (geocodeAndAddMarkers net st w)"
    by (auto simp: geocodeAndAddMarkers_def)
qed

lemma clear_detaches:
  assumes "distinct (map ident (globe_children w))"
  shows "ident ` set (globe_children (clearMarkers w)) =
           ident ` set (globe_children w) - ident ` set (markers w)"
proof -
  have "set (map ident (globe_children (clearMarkers w))) =
          set (map ident (globe_children w)) - ident ` set (markers w)"
    using set_remove_all [OF assms, of "markers w"]
    by (simp add: clearMarkers_def map_ident_remove_all)
  then show ?thesis by simp
qed


lemma normalize_marker_position:
  "vnormalize (latLonToVector3 (Fin la) (Fin lo) (Fin 1.005)) = latLonToVector3 (Fin la) (Fin lo) (Fin 1)"
proof -
  have l: "vlength (latLonToVector3 (Fin la) (Fin lo) (Fin 1.005)) = Fin 1.005"
    by (simp add: vlength_latLon)
  show ?thesis
    unfolding vnormalize_def l
    by (simp add: js_or_def divideScalar_def multiplyScalar_def latLonToVector3_Fin)
qed

section \<open>The marker store: claims\<close>

text \<open>
  C7. Every call \<open>addMarker(lat, lon, color, size)\<close> makes a marker of the given size and
  colour, positioned at the projection of (lat, lon) at radius 1.005 (the globe's sphere
  has radius 1), told to look at its own position plus its own normalised position
  vector, pushed as the last child of the globe and as the last element of the store,
  and returned. For finite coordinates the position has length 1.005 and the normalised
  position is the unit outward normal, the projection of (lat, lon) at radius 1.
\<close>

theorem C7_addMarker:
  "(let (m, w') = addMarker lat lon color msize w
    in position m = latLonToVector3 lat lon (Fin 1.005) \<and>
       lookAt_target m = vadd (position m) (vnormalize (position m)) \<and>
       circle_radius m = msize \<and> material_color m = color \<and>
       ident m = object3DId w \<and>
       globe_children w' = Object3D_remove m (globe_children w) @ [m] \<and>
       markers w' = markers w @ [m]) \<and>
   (let (m, w') = addMarker (Fin la) (Fin lo) color msize w
    in vlength (position m) = Fin 1.005 \<and>
       vnormalize (position m) = latLonToVector3 (Fin la) (Fin lo) (Fin 1) \<and>
       vlength (vnormalize (position m)) = Fin 1)"
proof -
  let ?m = "fst (addMarker (Fin la) (Fin lo) color msize w)"
  have p: "position ?m = latLonToVector3 (Fin la) (Fin lo) (Fin 1.005)"
    by (rule addMarker_marker)
  have "vlength (position ?m) = Fin 1.005 \<and>
        vnormalize (position ?m) = latLonToVector3 (Fin la) (Fin lo) (Fin 1) \<and>
        vlength (vnormalize (position ?m)) = Fin 1"
    unfolding p normalize_marker_position by (simp add: vlength_latLon)
  then show ?thesis
    by (simp add: split_beta vlength_latLon)
qed

text \<open>
  C8. \<open>clearMarkers()\<close> leaves the store empty and no stored marker among the children of
  the globe (the other children stay); doing it twice is the same as doing it once, the
  store being empty both times; on an empty store it changes nothing. For the
  detaching, the globe holds each object at most once among its children, as THREE
  keeps it: every state the script reaches is such (\<open>reachable_scene_ok\<close>).
\<close>

theorem C8_clearMarkers:
  "markers (clearMarkers w) = [] \<and>
   clearMarkers (clearMarkers w) = clearMarkers w \<and>
   markers (clearMarkers (clearMarkers w)) = [] \<and>
   (markers w = [] \<longrightarrow> clearMarkers w = w) \<and>
   (distinct (map ident (globe_children w)) \<longrightarrow>
      (\<forall>m \<in> set (markers w). ident m \<notin> ident ` set (globe_children (clearMarkers w))) \<and>
      ident ` set (globe_children (clearMarkers w)) =
        ident ` set (globe_children w) - ident ` set (markers w))"
  using clear_detaches [of w] by (auto simp: clearMarkers_def)

text \<open>
  C8 at the world that holds one marker, and at the initial world, whose store is empty.
\<close>

theorem C8_clearMarkers_witness:
  "markers (snd (addMarker (Fin 0) (Fin 0) (Fin 0xff0000) (Fin 0.008) initial_world)) \<noteq> [] \<and>
   markers (clearMarkers (snd (addMarker (Fin 0) (Fin 0) (Fin 0xff0000) (Fin 0.008) initial_world))) = [] \<and>
   globe_children (clearMarkers (snd (addMarker (Fin 0) (Fin 0) (Fin 0xff0000) (Fin 0.008) initial_world))) = [] \<and>
   clearMarkers (clearMarkers (snd (addMarker (Fin 0) (Fin 0) (Fin 0xff0000) (Fin 0.008) initial_world)))
     = clearMarkers (snd (addMarker (Fin 0) (Fin 0) (Fin 0xff0000) (Fin 0.008) initial_world)) \<and>
   clearMarkers initial_world = initial_world"
  using C8_clearMarkers [of "snd (addMarker (Fin 0) (Fin 0) (Fin 0xff0000) (Fin 0.008) initial_world)"]
    C8_clearMarkers [of initial_world]
  by (simp add: initial_world_def)

section \<open>The refresh cycle: facts\<close>

lemmas parse_defs = parseFloat_def parse_exponent_def DecimalDigit_def StrWhiteSpaceChar_def
  digits_value_def Let_def

lemma cycle_requests:
  "requests (geocodeAndAddMarkers net st w) = requests w @ locations st"
  by (simp add: geocodeAndAddMarkers_def loop_requests)

lemma geocode_city_console_found:
  "console (geocode_city st city (Data (d # ds)) w) =
     console w @ [Log_added_marker city (parseFloat (place_lat d)) (parseFloat (place_lon d))]"
  by (simp add: geocode_city_found Let_def)



lemma cycle_timer:
  "timer_ms (geocodeAndAddMarkers net st w) =
     timer_ms w + 1000 * answered net (length (requests w)) (locations st)"
  by (simp add: geocodeAndAddMarkers_def loop_timer)


lemma cycle_idents:
  "map ident (markers (geocodeAndAddMarkers net st w)) =
     [object3DId w ..< object3DId w + length (geocoded net (length (requests w)) (locations st))]"
  using loop_idents [of net st "locations st" "clearMarkers w"]
  by (simp add: geocodeAndAddMarkers_def)

lemma latLonToVector3_NaN:
  "vx (latLonToVector3 NaN lon r) = NaN" "vy (latLonToVector3 NaN lon r) = NaN"
  "vz (latLonToVector3 NaN lon r) = NaN"
  "vx (latLonToVector3 lat NaN r) = NaN" "vz (latLonToVector3 lat NaN r) = NaN"
  by (simp_all add: latLonToVector3_def Let_def)

subsection \<open>The cycle as it runs\<close>

lemma next_iteration_fields [simp]:
  "markers (fst (next_iteration st i w)) = markers w"
  "globe_children (fst (next_iteration st i w)) = globe_children w"
  "object3DId (fst (next_iteration st i w)) = object3DId w"
  "console (fst (next_iteration st i w)) = console w"
  "timer_ms (fst (next_iteration st i w)) = timer_ms w"
  "requests (fst (next_iteration st i w)) =
     requests w @ (if i < length (locations st) then [locations st ! i] else [])"
  "snd (next_iteration st i w) =
     (if i < length (locations st) then AwaitResponse (locations st ! i) (Suc i) else Finished)"
  by (simp_all add: next_iteration_def)


lemma settle_rejected [simp]:
  "settle st city FetchRejected w = w\<lparr> console := console w @ [Error_geocoding city FetchFailed] \<rparr>"
  "settle st city JsonRejected w = w\<lparr> console := console w @ [Error_geocoding city JsonSyntaxError] \<rparr>"
  "settle st city (Data []) w = w"
  by (simp_all add: settle_def)

lemma settle_found:
  "settle st city (Data (d # ds)) w =
     (snd (addMarker (parseFloat (place_lat d)) (parseFloat (place_lon d))
             (markerColor st) (markerSize st) w))
     \<lparr> console := console w @
          [Log_added_marker city (parseFloat (place_lat d)) (parseFloat (place_lon d))] \<rparr>"
  by (simp add: settle_def Let_def split_beta)

lemma settle_requests [simp]: "requests (settle st city outcome w) = requests w"
  by (cases outcome; cases "case outcome of Data dat \<Rightarrow> dat | _ \<Rightarrow> []")
     (simp_all add: settle_found)

lemma settle_timer [simp]: "timer_ms (settle st city outcome w) = timer_ms w"
  by (cases outcome; cases "case outcome of Data dat \<Rightarrow> dat | _ \<Rightarrow> []")
     (simp_all add: settle_found)

lemma settle_markers:
  "markers (settle st city outcome w) =
     markers w @
     (case outcome of
        Data (d # _) \<Rightarrow>
          [fst (addMarker (parseFloat (place_lat d)) (parseFloat (place_lon d))
                  (markerColor st) (markerSize st) w)]
      | _ \<Rightarrow> [])"
  by (cases outcome; cases "case outcome of Data dat \<Rightarrow> dat | _ \<Rightarrow> []")
     (simp_all add: settle_found)

lemma settle_children:
  "globe_children (settle st city outcome w) =
     (case outcome of
        Data (d # _) \<Rightarrow>
          Object3D_add (fst (addMarker (parseFloat (place_lat d)) (parseFloat (place_lon d))
                  (markerColor st) (markerSize st) w)) (globe_children w)
      | _ \<Rightarrow> globe_children w)"
  by (cases outcome; cases "case outcome of Data dat \<Rightarrow> dat | _ \<Rightarrow> []")
     (simp_all add: settle_found Object3D_add_def)

lemma settle_counter:
  "object3DId (settle st city outcome w) =
     object3DId w + (case outcome of Data (d # _) \<Rightarrow> 1 | _ \<Rightarrow> 0)"
  by (cases outcome; cases "case outcome of Data dat \<Rightarrow> dat | _ \<Rightarrow> []")
     (simp_all add: settle_found)

lemma settle_console:
  "console (settle st city outcome w) =
     console w @
     (case outcome of
        FetchRejected \<Rightarrow> [Error_geocoding city FetchFailed]
      | JsonRejected \<Rightarrow> [Error_geocoding city JsonSyntaxError]
      | Data [] \<Rightarrow> []
      | Data (d # _) \<Rightarrow>
          [Log_added_marker city (parseFloat (place_lat d)) (parseFloat (place_lon d))])"
  by (cases outcome; cases "case outcome of Data dat \<Rightarrow> dat | _ \<Rightarrow> []")
     (simp_all add: settle_found)




lemma scene_ok_cong:
  "markers w' = markers w \<Longrightarrow> globe_children w' = globe_children w \<Longrightarrow>
     object3DId w' = object3DId w \<Longrightarrow> scene_ok w' = scene_ok w"
  by (simp add: scene_ok_def)

lemma scene_ok_settle:
  assumes "scene_ok w"
  shows "scene_ok (settle st city outcome w) \<and>
         (\<exists>ns. markers (settle st city outcome w) = markers w @ ns \<and>
               globe_children (settle st city outcome w) = globe_children w @ ns)"
proof -
  let ?g = "geocode_city st city outcome w"
  have "markers (settle st city outcome w) = markers ?g"
    and "globe_children (settle st city outcome w) = globe_children ?g"
    and "object3DId (settle st city outcome w) = object3DId ?g"
    by (simp_all add: settle_markers geocode_city_markers settle_children geocode_city_children
        settle_counter geocode_city_counter)
  then show ?thesis
    using scene_ok_geocode_city [OF assms, of st city outcome]
    by (simp add: scene_ok_def)
qed

text \<open>Every event but a call leaves the store and the globe alone or settles a request.\<close>

lemma run_event_world:
  assumes "e \<noteq> Refresh"
  shows "\<exists>w1. (w1 = world_now a \<or> (\<exists>city outcome. w1 = settle (settings_now a) city outcome (world_now a))) \<and>
              markers (world_now (run_event a e)) = markers w1 \<and>
              globe_children (world_now (run_event a e)) = globe_children w1 \<and>
              object3DId (world_now (run_event a e)) = object3DId w1"
proof (cases e)
  case Refresh
  with assms show ?thesis by simp
next
  case (Settle k outcome)
  show ?thesis
  proof (cases "k < length (cycles a)")
    case False
    then show ?thesis by (auto simp: Settle)
  next
    case True
    show ?thesis
    proof (cases "cycles a ! k")
      case (AwaitResponse city i)
      have "markers (world_now (run_event a e)) = markers (settle (settings_now a) city outcome (world_now a))"
        and "globe_children (world_now (run_event a e)) =
               globe_children (settle (settings_now a) city outcome (world_now a))"
        and "object3DId (world_now (run_event a e)) =
               object3DId (settle (settings_now a) city outcome (world_now a))"
        using True by (cases outcome; simp add: Settle AwaitResponse Let_def case_prod_unfold)+
      then show ?thesis by blast
    next
      case (AwaitDelay i)
      then show ?thesis using True by (auto simp: Settle)
    next
      case Finished
      then show ?thesis using True by (auto simp: Settle)
    qed
  qed
next
  case (Timer k)
  then show ?thesis
    by (cases "cycles a ! k") (auto simp: Let_def case_prod_unfold)
next
  case (Handler h)
  then show ?thesis by auto
qed

lemma run_event_Refresh_world:
  "markers (world_now (run_event a Refresh)) = []"
  "globe_children (world_now (run_event a Refresh)) = globe_children (clearMarkers (world_now a))"
  "object3DId (world_now (run_event a Refresh)) = object3DId (world_now a)"
  by (simp_all add: case_prod_unfold Let_def)

lemma scene_ok_run_event:
  assumes "scene_ok (world_now a)"
  shows "scene_ok (world_now (run_event a e))"
proof (cases "e = Refresh")
  case True
  have "scene_ok (world_now (run_event a Refresh)) = scene_ok (clearMarkers (world_now a))"
    by (rule scene_ok_cong) (simp_all only: run_event_Refresh_world clearMarkers_fields)
  then show ?thesis
    using True scene_ok_clearMarkers [OF assms] by simp
next
  case False
  from run_event_world [OF False, of a] obtain w1 where
    w1: "w1 = world_now a \<or> (\<exists>city outcome. w1 = settle (settings_now a) city outcome (world_now a))"
    and eq: "markers (world_now (run_event a e)) = markers w1"
      "globe_children (world_now (run_event a e)) = globe_children w1"
      "object3DId (world_now (run_event a e)) = object3DId w1"
    by blast
  have "scene_ok w1"
    using w1 assms scene_ok_settle by blast
  then show ?thesis
    using scene_ok_cong [OF eq] by simp
qed

lemma scene_ok_run_events:
  "scene_ok (world_now a) \<Longrightarrow> scene_ok (world_now (run_events evs a))"
proof (induction evs arbitrary: a)
  case Nil
  then show ?case by (simp add: run_events_def)
next
  case (Cons e evs)
  from Cons.IH [OF scene_ok_run_event [OF Cons.prems, of e]] show ?case
    by (simp add: run_events_def)
qed

lemma reachable_scene_ok:
  "scene_ok (world_now (run_events evs initial_app))"
  by (rule scene_ok_run_events) (simp add: initial_app_def scene_ok_initial)


lemma run_event_cycles_length:
  "e \<noteq> Refresh \<Longrightarrow> length (cycles (run_event a e)) = length (cycles a)"
  by (cases e) (auto simp: Let_def case_prod_unfold split: cycle.splits fetch_outcome.splits)

lemma run_event_cycles_other:
  assumes "e \<noteq> Refresh" and "j \<noteq> k" and "j < length (cycles a)" and "cycles a ! j = Finished"
    and "\<forall>j < length (cycles a). j \<noteq> k \<longrightarrow> cycles a ! j = Finished"
  shows "cycles (run_event a e) ! j = Finished"
proof (cases e)
  case Refresh
  with assms show ?thesis by simp
next
  case (Settle i outcome)
  show ?thesis
  proof (cases "i = k")
    case True
    then show ?thesis
      using assms by (auto simp: Settle Let_def case_prod_unfold split: cycle.splits fetch_outcome.splits)
  next
    case False
    then have "run_event a e = a"
      using assms(5) by (cases "i < length (cycles a)") (simp_all add: Settle)
    then show ?thesis using assms by simp
  qed
next
  case (Timer i)
  show ?thesis
  proof (cases "i = k")
    case True
    then show ?thesis
      using assms by (auto simp: Timer Let_def case_prod_unfold split: cycle.splits)
  next
    case False
    then have "run_event a e = a"
      using assms(5) by (cases "i < length (cycles a)") (simp_all add: Timer)
    then show ?thesis using assms by simp
  qed
next
  case (Handler h)
  then show ?thesis using assms by simp
qed

lemma step_positions:
  assumes "e \<noteq> Refresh" and "\<forall>j < length (cycles a). j \<noteq> k \<longrightarrow> cycles a ! j = Finished"
  shows "map position (markers (world_now (run_event a e))) =
           map position (markers (world_now a)) @
           map (\<lambda>(city, lat, lon). latLonToVector3 lat lon (Fin 1.005)) (delivered k a [e])"
proof (cases e)
  case Refresh
  with assms show ?thesis by simp
next
  case (Settle i outcome)
  show ?thesis
  proof (cases "i < length (cycles a)")
    case False
    then show ?thesis
      by (auto simp: Settle split: fetch_outcome.splits list.splits)
  next
    case True
    show ?thesis
    proof (cases "cycles a ! i")
      case (AwaitResponse city n)
      then have ik: "i = k"
        using assms(2) True by auto
      have "markers (world_now (run_event a e)) =
              markers (settle (settings_now a) city outcome (world_now a))"
        using True by (cases outcome; simp add: Settle AwaitResponse Let_def case_prod_unfold)
      moreover have "cycles a ! k = AwaitResponse city n" "k < length (cycles a)"
        using AwaitResponse ik True by simp_all
      ultimately show ?thesis
        by (simp add: settle_markers Settle ik split: fetch_outcome.splits list.splits)
    next
      case (AwaitDelay n)
      then show ?thesis
        using True by (auto simp: Settle split: fetch_outcome.splits list.splits)
    next
      case Finished
      then show ?thesis
        using True by (auto simp: Settle split: fetch_outcome.splits list.splits)
    qed
  qed
next
  case (Timer i)
  then show ?thesis
    by (cases "cycles a ! i") (auto simp: Let_def case_prod_unfold)
next
  case (Handler h)
  then show ?thesis by simp
qed

lemma delivered_append_one:
  "delivered k a (e # evs) = delivered k a [e] @ delivered k (run_event a e) evs"
  by simp

lemma run_positions:
  assumes "Refresh \<notin> set evs" and "\<forall>j < length (cycles a). j \<noteq> k \<longrightarrow> cycles a ! j = Finished"
  shows "map position (markers (world_now (run_events evs a))) =
           map position (markers (world_now a)) @
           map (\<lambda>(city, lat, lon). latLonToVector3 lat lon (Fin 1.005)) (delivered k a evs)"
  using assms
proof (induction evs arbitrary: a)
  case Nil
  then show ?case by (simp add: run_events_def)
next
  case (Cons e evs)
  have ne: "e \<noteq> Refresh" and rest: "Refresh \<notin> set evs"
    using Cons.prems(1) by auto
  have inv: "\<forall>j < length (cycles (run_event a e)). j \<noteq> k \<longrightarrow> cycles (run_event a e) ! j = Finished"
    using run_event_cycles_other [OF ne _ _ _ Cons.prems(2)] Cons.prems(2)
    by (simp add: run_event_cycles_length [OF ne])
  have "map position (markers (world_now (run_events (e # evs) a))) =
          map position (markers (world_now (run_events evs (run_event a e))))"
    by (simp add: run_events_def)
  also have "\<dots> = map position (markers (world_now (run_event a e))) @
          map (\<lambda>(city, lat, lon). latLonToVector3 lat lon (Fin 1.005)) (delivered k (run_event a e) evs)"
    by (rule Cons.IH [OF rest inv])
  also have "\<dots> = map position (markers (world_now a)) @
          map (\<lambda>(city, lat, lon). latLonToVector3 lat lon (Fin 1.005)) (delivered k a (e # evs))"
    unfolding step_positions [OF ne Cons.prems(2)] delivered_append_one [of k a e evs] by simp
  finally show ?case .
qed


lemma step_extends:
  assumes "e \<noteq> Refresh"
  shows "\<exists>ns. markers (world_now (run_event a e)) = markers (world_now a) @ ns \<and>
              list_all (\<lambda>m. object3DId (world_now a) \<le> ident m) ns \<and>
              object3DId (world_now a) \<le> object3DId (world_now (run_event a e)) \<and>
              (scene_ok (world_now a) \<longrightarrow>
                 globe_children (world_now (run_event a e)) = globe_children (world_now a) @ ns)"
proof -
  let ?w = "world_now a"
  from run_event_world [OF assms, of a] obtain w1 where
    w1: "w1 = ?w \<or> (\<exists>city outcome. w1 = settle (settings_now a) city outcome ?w)"
    and eq: "markers (world_now (run_event a e)) = markers w1"
      "globe_children (world_now (run_event a e)) = globe_children w1"
      "object3DId (world_now (run_event a e)) = object3DId w1"
    by blast
  from w1 show ?thesis
  proof
    assume "w1 = ?w"
    then show ?thesis using eq by simp
  next
    assume "\<exists>city outcome. w1 = settle (settings_now a) city outcome ?w"
    then obtain city outcome where s: "w1 = settle (settings_now a) city outcome ?w"
      by blast
    let ?ns = "case outcome of
        Data (d # _) \<Rightarrow>
          [fst (addMarker (parseFloat (place_lat d)) (parseFloat (place_lon d))
                  (markerColor (settings_now a)) (markerSize (settings_now a)) ?w)]
      | _ \<Rightarrow> []"
    have m: "markers w1 = markers ?w @ ?ns"
      by (simp add: s settle_markers)
    have i: "list_all (\<lambda>m. object3DId ?w \<le> ident m) ?ns"
      by (simp split: fetch_outcome.splits list.splits)
    have c: "object3DId ?w \<le> object3DId w1"
      by (simp add: s settle_counter)
    have g: "globe_children w1 = globe_children ?w @ ?ns" if "scene_ok ?w"
      using scene_ok_settle [OF that, of "settings_now a" city outcome] m
      by (auto simp: s)
    show ?thesis
      using m i c g eq by auto
  qed
qed

lemma run_extends:
  assumes "Refresh \<notin> set evs" and "n \<le> object3DId (world_now a)"
  shows "\<exists>ns. markers (world_now (run_events evs a)) = markers (world_now a) @ ns \<and>
              list_all (\<lambda>m. n \<le> ident m) ns \<and>
              (scene_ok (world_now a) \<longrightarrow>
                 globe_children (world_now (run_events evs a)) = globe_children (world_now a) @ ns)"
  using assms
proof (induction evs arbitrary: a)
  case Nil
  then show ?case by (simp add: run_events_def)
next
  case (Cons e evs)
  have ne: "e \<noteq> Refresh" and rest: "Refresh \<notin> set evs"
    using Cons.prems(1) by auto
  from step_extends [OF ne, of a] obtain ns1 where
    m1: "markers (world_now (run_event a e)) = markers (world_now a) @ ns1"
    and i1: "list_all (\<lambda>m. object3DId (world_now a) \<le> ident m) ns1"
    and c1: "object3DId (world_now a) \<le> object3DId (world_now (run_event a e))"
    and g1: "scene_ok (world_now a) \<longrightarrow>
               globe_children (world_now (run_event a e)) = globe_children (world_now a) @ ns1"
    by blast
  have n': "n \<le> object3DId (world_now (run_event a e))"
    using Cons.prems(2) c1 by simp
  from Cons.IH [OF rest n'] obtain ns2 where
    m2: "markers (world_now (run_events evs (run_event a e))) = markers (world_now (run_event a e)) @ ns2"
    and i2: "list_all (\<lambda>m. n \<le> ident m) ns2"
    and g2: "scene_ok (world_now (run_event a e)) \<longrightarrow>
               globe_children (world_now (run_events evs (run_event a e))) =
                 globe_children (world_now (run_event a e)) @ ns2"
    by blast
  have r: "run_events (e # evs) a = run_events evs (run_event a e)"
    by (simp add: run_events_def)
  have "list_all (\<lambda>m. n \<le> ident m) (ns1 @ ns2)"
    using i1 i2 Cons.prems(2) by (auto simp: list_all_iff)
  moreover have "markers (world_now (run_events (e # evs) a)) = markers (world_now a) @ ns1 @ ns2"
    using m1 m2 r by simp
  moreover have "scene_ok (world_now a) \<longrightarrow>
      globe_children (world_now (run_events (e # evs) a)) = globe_children (world_now a) @ ns1 @ ns2"
    using g1 g2 r scene_ok_run_event [of a e] by simp
  ultimately show ?case by blast
qed

lemma parse_40_74: "parseFloat ''40.0'' = Fin 40" "parseFloat ''-74.0'' = Fin (- 74)"
  by (simp_all add: parse_defs)

text \<open>
  The loop reads the live list: when the first of the locations A, B, C is removed while
  the request for A is pending, the iterator's next index, 1, then names C, and no
  request is ever sent for B.
\<close>

lemma removal_skips_a_location:
  "requests (world_now (run_events
      [Refresh, Handler (RemoveLocationClick 0), Settle 0 (Data []), Timer 0, Settle 0 (Data []), Timer 0]
      (initial_app\<lparr> settings_now := settings\<lparr> locations := [''A'', ''B'', ''C''] \<rparr> \<rparr>))) = [''A'', ''C''] \<and>
   cycles (run_events
      [Refresh, Handler (RemoveLocationClick 0), Settle 0 (Data []), Timer 0, Settle 0 (Data []), Timer 0]
      (initial_app\<lparr> settings_now := settings\<lparr> locations := [''A'', ''B'', ''C''] \<rparr> \<rparr>)) = [Finished]"
  by (simp add: run_events_def initial_app_def initial_world_def next_iteration_def Let_def
      clearMarkers_def)

section \<open>The refresh cycle: claims\<close>

text \<open>
  C1 says that every location of a cycle is followed by the 1000 ms delay whatever its
  outcome, so that a cycle over N locations waits at least N * 1000 ms. In the script the
  delay stands inside the \<open>try\<close> block, after the two awaits, and a rejection skips it.
  Over the two locations A and B, where the answer for A is not JSON and the answer for
  B is an empty array, both requests are sent and the cycle waits 1000 ms in all, not
  2000; when both requests fail to connect it waits 0 ms.
\<close>

theorem C1_delay_skipped_on_rejection:
  "timer_ms (geocodeAndAddMarkers (\<lambda>n city. if city = ''A'' then JsonRejected else Data [])
      (settings\<lparr> locations := [''A'', ''B''] \<rparr>) initial_world) = 1000 \<and>
   requests (geocodeAndAddMarkers (\<lambda>n city. if city = ''A'' then JsonRejected else Data [])
      (settings\<lparr> locations := [''A'', ''B''] \<rparr>) initial_world) = [''A'', ''B''] \<and>
   timer_ms (geocodeAndAddMarkers (\<lambda>n city. FetchRejected)
      (settings\<lparr> locations := [''A'', ''B''] \<rparr>) initial_world) = 0"
  by (simp add: cycle_timer cycle_requests initial_world_def)







text \<open>
  C3, as the spec states it, fails when two cycles overlap. Over the single location A:
  a first cycle starts, a second cycle starts before the first request has settled, the
  second cycle gets an empty answer, then the first cycle gets (40.0, -74.0), and both
  delays end. Both cycles are finished and the store holds the first cycle's marker,
  while the most recent cycle has geocoded no location.
\<close>

theorem C3_counterexample:
  "map position (markers (world_now (run_events
      [Refresh, Refresh, Settle 1 (Data []), Settle 0 (Data [Place ''40.0'' ''-74.0'']),
       Timer 1, Timer 0]
      (initial_app\<lparr> settings_now := settings\<lparr> locations := [''A''] \<rparr> \<rparr>)))) =
     [latLonToVector3 (Fin 40) (Fin (- 74)) (Fin 1.005)] \<and>
   cycles (run_events
      [Refresh, Refresh, Settle 1 (Data []), Settle 0 (Data [Place ''40.0'' ''-74.0'']),
       Timer 1, Timer 0]
      (initial_app\<lparr> settings_now := settings\<lparr> locations := [''A''] \<rparr> \<rparr>)) = [Finished, Finished] \<and>
   delivered 1
      (run_events [Refresh, Refresh] (initial_app\<lparr> settings_now := settings\<lparr> locations := [''A''] \<rparr> \<rparr>))
      [Settle 1 (Data []), Settle 0 (Data [Place ''40.0'' ''-74.0'']), Timer 1, Timer 0] = []"
  by (simp add: run_events_def initial_app_def next_iteration_def settle_markers parse_40_74
      Let_def)


text \<open>
  C3, amended. Take a refresh cycle that starts when every earlier cycle has finished,
  and any events after its start among which there is no further start of a cycle
  (handlers may run, the list may be edited, the cycle may still be under way). Then the
  store holds exactly one marker per location this cycle has geocoded successfully so
  far, in order, at the projection of the parsed coordinates, and each of them was made
  after the cycle started (its ident is not below the counter at the start). From a
  well-formed scene (every scene the script reaches is one: \<open>reachable_scene_ok\<close>),
  these markers are the last children of the globe, after the
  children that the clearing left, and no marker that was in the store when the cycle
  started is in the store or among the children of the globe.
\<close>

theorem C3_most_recent_cycle:
  assumes "list_all (\<lambda>c. c = Finished) (cycles a)" and "Refresh \<notin> set evs"
  shows "map position (markers (world_now (run_events (Refresh # evs) a))) =
           map (\<lambda>(city, lat, lon). latLonToVector3 lat lon (Fin 1.005))
             (delivered (length (cycles a)) (run_event a Refresh) evs) \<and>
         list_all (\<lambda>m. object3DId (world_now a) \<le> ident m)
           (markers (world_now (run_events (Refresh # evs) a))) \<and>
         (scene_ok (world_now a) \<longrightarrow>
            globe_children (world_now (run_events (Refresh # evs) a)) =
              globe_children (clearMarkers (world_now a)) @
              markers (world_now (run_events (Refresh # evs) a)) \<and>
            (\<forall>m \<in> set (markers (world_now a)).
               ident m \<notin> ident ` set (markers (world_now (run_events (Refresh # evs) a))) \<and>
               ident m \<notin> ident ` set (globe_children (world_now (run_events (Refresh # evs) a)))))"
proof -
  let ?a = "run_event a Refresh"
  let ?F = "world_now (run_events (Refresh # evs) a)"
  let ?k = "length (cycles a)"
  have r: "run_events (Refresh # evs) a = run_events evs ?a"
    by (simp add: run_events_def)
  have cy: "cycles ?a = cycles a @ [snd (next_iteration (settings_now a) 0 (clearMarkers (world_now a)))]"
    by (simp add: case_prod_unfold Let_def)
  have inv: "\<forall>j < length (cycles ?a). j \<noteq> ?k \<longrightarrow> cycles ?a ! j = Finished"
    unfolding cy using assms(1) by (auto simp: list_all_iff nth_append)
  have mk: "markers (world_now ?a) = []"
    and gk: "globe_children (world_now ?a) = globe_children (clearMarkers (world_now a))"
    and ck: "object3DId (world_now ?a) = object3DId (world_now a)"
    by (rule run_event_Refresh_world)+
  have pos: "map position (markers ?F) =
      map (\<lambda>(city, lat, lon). latLonToVector3 lat lon (Fin 1.005)) (delivered ?k ?a evs)"
  proof -
    have "map position (markers (world_now (run_events evs ?a))) =
        map position (markers (world_now ?a)) @
        map (\<lambda>(city, lat, lon). latLonToVector3 lat lon (Fin 1.005)) (delivered ?k ?a evs)"
      by (rule run_positions [OF assms(2) inv])
    then show ?thesis
      unfolding r mk by (simp del: run_event.simps)
  qed
  have n: "object3DId (world_now a) \<le> object3DId (world_now ?a)"
    unfolding ck by simp
  from run_extends [OF assms(2) n] obtain ns where
    m: "markers ?F = ns"
    and i: "list_all (\<lambda>m. object3DId (world_now a) \<le> ident m) ns"
    and g: "scene_ok (world_now ?a) \<longrightarrow>
              globe_children ?F = globe_children (clearMarkers (world_now a)) @ ns"
    unfolding r mk gk by (auto simp del: run_event.simps)
  have old: "globe_children ?F = globe_children (clearMarkers (world_now a)) @ markers ?F \<and>
      (\<forall>m \<in> set (markers (world_now a)).
         ident m \<notin> ident ` set (markers ?F) \<and> ident m \<notin> ident ` set (globe_children ?F))"
    if ok: "scene_ok (world_now a)"
  proof -
    have ch: "globe_children ?F = globe_children (clearMarkers (world_now a)) @ markers ?F"
      using g m scene_ok_run_event [OF ok, of Refresh] by simp
    have d: "distinct (map ident (globe_children (world_now a)))"
      using ok by (simp add: scene_ok_def)
    have "ident x \<notin> ident ` set (markers ?F) \<and> ident x \<notin> ident ` set (globe_children ?F)"
      if x: "x \<in> set (markers (world_now a))" for x
    proof -
      have lt: "ident x < object3DId (world_now a)"
        using ok x by (simp add: scene_ok_def list_all_iff)
      have a1: "ident x \<notin> ident ` set (markers ?F)"
        using i lt unfolding m by (auto simp: list_all_iff)
      have "ident x \<notin> ident ` set (globe_children (clearMarkers (world_now a)))"
        using x by (simp add: clear_detaches [OF d])
      then show ?thesis
        using a1 unfolding ch by (auto simp: image_Un)
    qed
    then show ?thesis using ch by blast
  qed
  show ?thesis
    using pos i old unfolding m [symmetric] by blast
qed


text \<open>
  C3, amended, at a world that already holds one marker (ident 0), with the location A:
  the cycle starts, B is added to the list while the request for A is pending, A
  resolves to (40.0, -74.0), and the delay ends, so that the request for B is sent.
  The store and the globe hold the new marker (ident 1) alone.
\<close>

theorem C3_most_recent_cycle_witness:
  "map position (markers (world_now (run_events
      [Refresh, Handler (AddLocationClick ''B''), Settle 0 (Data [Place ''40.0'' ''-74.0'']), Timer 0]
      (initial_app\<lparr> settings_now := settings\<lparr> locations := [''A''] \<rparr>,
         world_now := snd (addMarker (Fin 0) (Fin 0) (Fin 0xff0000) (Fin 0.008) initial_world) \<rparr>)))) =
     [latLonToVector3 (Fin 40) (Fin (- 74)) (Fin 1.005)] \<and>
   map ident (markers (snd (addMarker (Fin 0) (Fin 0) (Fin 0xff0000) (Fin 0.008) initial_world))) = [0] \<and>
   map ident (globe_children (world_now (run_events
      [Refresh, Handler (AddLocationClick ''B''), Settle 0 (Data [Place ''40.0'' ''-74.0'']), Timer 0]
      (initial_app\<lparr> settings_now := settings\<lparr> locations := [''A''] \<rparr>,
         world_now := snd (addMarker (Fin 0) (Fin 0) (Fin 0xff0000) (Fin 0.008) initial_world) \<rparr>)))) = [1] \<and>
   requests (world_now (run_events
      [Refresh, Handler (AddLocationClick ''B''), Settle 0 (Data [Place ''40.0'' ''-74.0'']), Timer 0]
      (initial_app\<lparr> settings_now := settings\<lparr> locations := [''A''] \<rparr>,
         world_now := snd (addMarker (Fin 0) (Fin 0) (Fin 0xff0000) (Fin 0.008) initial_world) \<rparr>))) =
     [''A'', ''B'']"
proof -
  let ?a = "initial_app\<lparr> settings_now := settings\<lparr> locations := [''A''] \<rparr>,
         world_now := snd (addMarker (Fin 0) (Fin 0) (Fin 0xff0000) (Fin 0.008) initial_world) \<rparr>"
  let ?evs = "[Handler (AddLocationClick ''B''), Settle 0 (Data [Place ''40.0'' ''-74.0'']), Timer 0]"
  have h1: "list_all (\<lambda>c. c = Finished) (cycles ?a)"
    by (simp add: initial_app_def)
  have h2: "Refresh \<notin> set ?evs"
    by simp
  have ok: "scene_ok (world_now ?a)"
    by (simp add: scene_ok_def initial_world_def)
  have d: "delivered (length (cycles ?a)) (run_event ?a Refresh) ?evs = [(''A'', Fin 40, Fin (- 74))]"
    by (simp add: initial_app_def next_iteration_def parse_40_74 Let_def)
  have c: "map ident (globe_children (clearMarkers (world_now ?a))) = []"
    by (simp add: clearMarkers_def initial_world_def)
  have i: "map ident (markers (world_now (run_events (Refresh # ?evs) ?a))) = [1]"
    by (simp add: run_events_def initial_app_def next_iteration_def settle_markers Let_def
        initial_world_def trim_def StrWhiteSpaceChar_def)
  have r: "requests (world_now (run_events (Refresh # ?evs) ?a)) = [''A'', ''B'']"
    by (simp add: run_events_def initial_app_def next_iteration_def Let_def
        initial_world_def trim_def StrWhiteSpaceChar_def)
  from C3_most_recent_cycle [OF h1 h2] ok
  have "map position (markers (world_now (run_events (Refresh # ?evs) ?a))) =
          map (\<lambda>(city, lat, lon). latLonToVector3 lat lon (Fin 1.005))
            (delivered (length (cycles ?a)) (run_event ?a Refresh) ?evs)"
    and "globe_children (world_now (run_events (Refresh # ?evs) ?a)) =
           globe_children (clearMarkers (world_now ?a)) @
           markers (world_now (run_events (Refresh # ?evs) ?a))"
    by blast+
  then have "map position (markers (world_now (run_events (Refresh # ?evs) ?a))) =
          [latLonToVector3 (Fin 40) (Fin (- 74)) (Fin 1.005)]"
    and "map ident (globe_children (world_now (run_events (Refresh # ?evs) ?a))) = [1]"
    unfolding d using c i by simp_all
  then show ?thesis
    using r by (simp add: initial_world_def)
qed


text \<open>
  C10. A non-empty answer whose latitude or longitude string \<open>parseFloat\<close> turns into NaN
  is not a failure: a marker is made, appended to the store and to the globe, at the
  projection of the parsed coordinates, whose x and z are NaN (and y too when the
  latitude is NaN); the success line is logged, no error is, and the delay is awaited.
  A marker is added for every non-empty answer, and for no empty one.
\<close>

theorem C10_unparsable_coordinates:
  assumes "parseFloat (place_lat d) = NaN \<or> parseFloat (place_lon d) = NaN"
  shows "\<exists>m. markers (geocode_city st city (Data (d # ds)) w) = markers w @ [m] \<and>
             last (globe_children (geocode_city st city (Data (d # ds)) w)) = m \<and>
             position m =
               latLonToVector3 (parseFloat (place_lat d)) (parseFloat (place_lon d)) (Fin 1.005) \<and>
             vx (position m) = NaN \<and> vz (position m) = NaN \<and>
             (parseFloat (place_lat d) = NaN \<longrightarrow> position m = Vector3 NaN NaN NaN) \<and>
             console (geocode_city st city (Data (d # ds)) w) =
               console w @ [Log_added_marker city (parseFloat (place_lat d)) (parseFloat (place_lon d))] \<and>
             timer_ms (geocode_city st city (Data (d # ds)) w) = timer_ms w + 1000 \<and>
             length (markers (geocode_city st city (Data (d' # ds')) w)) = Suc (length (markers w)) \<and>
             markers (geocode_city st city (Data []) w) = markers w"
proof -
  let ?la = "parseFloat (place_lat d)" and ?lo = "parseFloat (place_lon d)"
  let ?m = "fst (addMarker ?la ?lo (markerColor st) (markerSize st) w)"
  let ?w = "geocode_city st city (Data (d # ds)) w"
  have p: "position ?m = latLonToVector3 ?la ?lo (Fin 1.005)"
    by (rule addMarker_marker)
  have xz: "vx (position ?m) = NaN \<and> vz (position ?m) = NaN"
    unfolding p using assms by (auto simp: latLonToVector3_NaN)
  have y: "position ?m = Vector3 NaN NaN NaN" if "?la = NaN"
    unfolding p that by (simp add: latLonToVector3_def Let_def)
  have "markers ?w = markers w @ [?m]"
    by (simp add: geocode_city_markers)
  moreover have "last (globe_children ?w) = ?m"
    by (simp add: geocode_city_children Object3D_add_def)
  moreover have "console ?w = console w @ [Log_added_marker city ?la ?lo]"
    by (rule geocode_city_console_found)
  moreover have "timer_ms ?w = timer_ms w + 1000"
    by (simp add: geocode_city_timer)
  moreover have "length (markers (geocode_city st city (Data (d' # ds')) w)) = Suc (length (markers w))"
    by (simp add: geocode_city_markers)
  moreover have "markers (geocode_city st city (Data []) w) = markers w"
    by simp
  ultimately show ?thesis
    using p xz y by blast
qed

text \<open>
  C10 at the answer with latitude "abc" and longitude "12.5".
\<close>

theorem C10_unparsable_coordinates_witness:
  "parseFloat ''abc'' = NaN \<and>
   map position (markers (geocode_city settings ''Nowhere'' (Data [Place ''abc'' ''12.5'']) initial_world)) =
     [Vector3 NaN NaN NaN] \<and>
   console (geocode_city settings ''Nowhere'' (Data [Place ''abc'' ''12.5'']) initial_world) =
     [Log_added_marker ''Nowhere'' NaN (Fin 12.5)] \<and>
   timer_ms (geocode_city settings ''Nowhere'' (Data [Place ''abc'' ''12.5'']) initial_world) = 1000"
proof -
  have a: "parseFloat ''abc'' = NaN" and b: "parseFloat ''12.5'' = Fin 12.5"
    by (simp_all add: parse_defs)
  then have h: "parseFloat (place_lat (Place ''abc'' ''12.5'')) = NaN \<or>
      parseFloat (place_lon (Place ''abc'' ''12.5'')) = NaN"
    by simp
  from C10_unparsable_coordinates [where d = "Place ''abc'' ''12.5''" and st = settings
      and city = "''Nowhere''" and ds = "[]" and w = initial_world, OF h]
  obtain m where
    "markers (geocode_city settings ''Nowhere'' (Data [Place ''abc'' ''12.5'']) initial_world) =
       markers initial_world @ [m]"
    "parseFloat (place_lat (Place ''abc'' ''12.5'')) = NaN \<longrightarrow> position m = Vector3 NaN NaN NaN"
    "console (geocode_city settings ''Nowhere'' (Data [Place ''abc'' ''12.5'']) initial_world) =
       console initial_world @ [Log_added_marker ''Nowhere''
         (parseFloat (place_lat (Place ''abc'' ''12.5''))) (parseFloat (place_lon (Place ''abc'' ''12.5'')))]"
    "timer_ms (geocode_city settings ''Nowhere'' (Data [Place ''abc'' ''12.5'']) initial_world) =
       timer_ms initial_world + 1000"
    by blast
  then show ?thesis
    using a b by (simp add: initial_world_def)
qed

section \<open>The settings: claims\<close>

lemma handle_ui_ambient:
  "(ambientLightIntensity (foldl handle_ui st evs) \<noteq> None) =
     (ambientLightIntensity st \<noteq> None \<or> (\<exists>v. AmbientLightInput v \<in> set evs))"
proof (induction evs arbitrary: st)
  case Nil
  show ?case by simp
next
  case (Cons e evs)
  show ?case
    unfolding foldl_Cons Cons.IH by (cases e) (auto simp: Let_def)
qed

lemma handle_ui_directional:
  "(directionalLightIntensity (foldl handle_ui st evs) \<noteq> None) =
     (directionalLightIntensity st \<noteq> None \<or> (\<exists>v. DirectionalLightInput v \<in> set evs))"
proof (induction evs arbitrary: st)
  case Nil
  show ?case by simp
next
  case (Cons e evs)
  show ?case
    unfolding foldl_Cons Cons.IH by (cases e) (auto simp: Let_def)
qed

text \<open>
  C9, as the spec states it, fails: the settings the program starts with have no
  \<open>ambientLightIntensity\<close> and no \<open>directionalLightIntensity\<close>.
\<close>

theorem C9_counterexample: "\<not> all_fields_present settings"
  by (simp add: all_fields_present_def settings_def)

text \<open>
  C9, amended. The settings object starts with the seven fields backgroundColor,
  markerColor, markerSize, locations, shadowOpacity, shadowSize and shadowPosition, with
  the values of the literal, and without ambientLightIntensity and
  directionalLightIntensity. After any sequence of handler runs, ambientLightIntensity
  is defined exactly when the ambient light slider's handler has run, and
  directionalLightIntensity exactly when the directional light slider's handler has run.
\<close>

theorem C9_settings_fields:
  "backgroundColor settings = Fin 0xffffff \<and>
   markerColor settings = Fin 0xff0000 \<and>
   markerSize settings = Fin 0.008 \<and>
   locations settings = [''New York, USA'', ''Miami, USA'', ''Cancun, Mexico''] \<and>
   shadowOpacity settings = Fin 0.35 \<and>
   shadowSize settings = Fin 5 \<and>
   shadowPosition settings = Fin (- 1.8) \<and>
   ambientLightIntensity settings = None \<and>
   directionalLightIntensity settings = None \<and>
   (ambientLightIntensity (foldl handle_ui settings evs) \<noteq> None) =
     (\<exists>v. AmbientLightInput v \<in> set evs) \<and>
   (directionalLightIntensity (foldl handle_ui settings evs) \<noteq> None) =
     (\<exists>v. DirectionalLightInput v \<in> set evs) \<and>
   all_fields_present (foldl handle_ui settings evs) =
     ((\<exists>v. AmbientLightInput v \<in> set evs) \<and> (\<exists>v. DirectionalLightInput v \<in> set evs))"
proof -
  have "ambientLightIntensity settings = None" "directionalLightIntensity settings = None"
    by (simp_all add: settings_def)
  then show ?thesis
    unfolding all_fields_present_def handle_ui_ambient handle_ui_directional
    by (simp add: settings_def)
qed


end
